theory Spec2Isabelle
  imports Main
begin

section \<open>Values, exceptions and the outcome of running a parser\<close>

text \<open>
  The parsers of \<^verbatim>\<open>monad_argparse/parser.py\<close> are Python functions from a token list to
  a list of pairs (value, remaining tokens). Python values are dynamically typed; the
  ones the parsers build are tokens (strings), booleans, converted values, the tuples
  \<^verbatim>\<open>(key, value)\<close> and lists of values.
\<close>

datatype val = NoneV | BoolV bool | IntV int | StrV string | TupleV "val list" | ListV "val list"

text \<open>
  The exceptions the code can raise: the failed destructuring in \<^verbatim>\<open>parse_args\<close>
  (ValueError), the \<^verbatim>\<open>assert\<close>s of \<^verbatim>\<open>many1\<close> (AssertionError), the check of
  \<^verbatim>\<open>Monad.do\<close> (RuntimeError), the interpreter's RecursionError when the calls nest
  deeper than its recursion limit, and whatever a converter given to \<^verbatim>\<open>Option\<close>
  raises: an exception of class \<^verbatim>\<open>Exception\<close> (ConverterError, with its message) or one
  of the exceptions that derive from \<^verbatim>\<open>BaseException\<close> only.
\<close>

datatype exn = ValueError | AssertionError | RuntimeError | RecursionError
  | ConverterError string | SystemExit | KeyboardInterrupt | GeneratorExit

text \<open>\<^verbatim>\<open>isinstance(e, Exception)\<close>, which is what \<^verbatim>\<open>except Exception\<close> catches.\<close>

fun isinstance_Exception :: "exn \<Rightarrow> bool" where
  "isinstance_Exception SystemExit = False"
| "isinstance_Exception KeyboardInterrupt = False"
| "isinstance_Exception GeneratorExit = False"
| "isinstance_Exception _ = True"

type_synonym outcomes = "(val \<times> string list) list"

text \<open>
  A run of a parser either never returns (\<open>None\<close>: a parser wraps any function the
  caller gives it), raises (\<open>Some (Inl e)\<close>) or returns its list of outcomes
  (\<open>Some (Inr xs)\<close>); the empty list is the failure of the parser.
\<close>

type_synonym run = "(exn + outcomes) option"

type_synonym parser = "string list \<Rightarrow> run"

definition returns :: "'a \<Rightarrow> (exn + 'a) option" where
  "returns x = Some (Inr x)"

definition raises :: "exn \<Rightarrow> (exn + 'a) option" where
  "raises e = Some (Inl e)"

text \<open>Evaluation order: the first computation runs, and only its returned list goes on.\<close>

definition and_then :: "run \<Rightarrow> (outcomes \<Rightarrow> run) \<Rightarrow> run" where
  "and_then r k = (case r of None \<Rightarrow> None | Some (Inl e) \<Rightarrow> Some (Inl e) | Some (Inr xs) \<Rightarrow> k xs)"

section \<open>The Parser class of parser.py\<close>

definition parse :: "parser \<Rightarrow> string list \<Rightarrow> run" where
  "parse p cs = p cs"

text \<open>\<^verbatim>\<open>raise\<close> inside a continuation of \<^verbatim>\<open>bind\<close>: the run of the parser raises.\<close>

definition raise :: "exn \<Rightarrow> parser" where
  "raise e = (\<lambda>cs. raises e)"

text \<open>\<^verbatim>\<open>Parser.__add__\<close>: \<^verbatim>\<open>self.parse(cs) + p.parse(cs)\<close>, both sides always run.\<close>

definition add_p :: "parser \<Rightarrow> parser \<Rightarrow> parser" where
  "add_p p q = (\<lambda>cs. and_then (parse p cs) (\<lambda>xs. and_then (parse q cs) (\<lambda>ys. returns (xs @ ys))))"

text \<open>\<^verbatim>\<open>Parser.__or__\<close>: \<^verbatim>\<open>x = (self + p).parse(cs); return [x[0]] if x else []\<close>.\<close>

definition or_p :: "parser \<Rightarrow> parser \<Rightarrow> parser" where
  "or_p p q = (\<lambda>cs. and_then (parse (add_p p q) cs)
                       (\<lambda>x. returns (case x of [] \<Rightarrow> [] | x0 # _ \<Rightarrow> [x0])))"

text \<open>
  \<^verbatim>\<open>Parser.bind\<close>: for every outcome \<^verbatim>\<open>(a, _cs)\<close> of \<^verbatim>\<open>p\<close>, in order, the outcomes of
  \<^verbatim>\<open>f(a).parse(_cs)\<close>; the generator is forced by \<^verbatim>\<open>list\<close>, so an exception in any of
  them leaves \<^verbatim>\<open>parse\<close>.
\<close>

fun bind_each :: "(val \<Rightarrow> parser) \<Rightarrow> outcomes \<Rightarrow> run" where
  "bind_each f [] = returns []"
| "bind_each f ((a, cs') # xs) =
     and_then (parse (f a) cs') (\<lambda>ys. and_then (bind_each f xs) (\<lambda>zs. returns (ys @ zs)))"

definition bind :: "parser \<Rightarrow> (val \<Rightarrow> parser) \<Rightarrow> parser" where
  "bind p f = (\<lambda>cs. and_then (parse p cs) (bind_each f))"

definition ret :: "val \<Rightarrow> parser" where
  "ret x = (\<lambda>cs. returns [(x, cs)])"

definition zero_p :: parser where
  "zero_p = (\<lambda>cs. returns [])"

text \<open>
  \<^verbatim>\<open>Monad.do\<close> (monad.py) runs a generator: each yielded parser is bound to the rest of
  the generator, and when the generator is exhausted the last value sent, \<^verbatim>\<open>y\<close>, is
  returned with \<^verbatim>\<open>ret\<close>, unless it is \<^verbatim>\<open>None\<close>, which raises RuntimeError. A generator
  that yields \<open>z1\<close>, then \<open>z2\<close>, ..., then \<open>zn\<close> is therefore
  \<open>bind z1 (\<lambda>y1. bind z2 (\<lambda>y2. ... bind zn do_end))\<close>; the statements between two
  yields run inside the continuation.
\<close>

definition do_end :: "val \<Rightarrow> parser" where
  "do_end y = (if y = NoneV then raise RuntimeError else ret y)"

text \<open>\<^verbatim>\<open>Parser.__rshift__\<close>: \<^verbatim>\<open>x1 = yield self; x2 = yield p; yield self.ret([x1] + [x2])\<close>.\<close>

definition rshift :: "parser \<Rightarrow> parser \<Rightarrow> parser" where
  "rshift p q = bind p (\<lambda>x1. bind q (\<lambda>x2. bind (ret (ListV ([x1] @ [x2]))) do_end))"

fun isinstance_tuple :: "val \<Rightarrow> bool" where
  "isinstance_tuple (TupleV _) = True"
| "isinstance_tuple _ = False"



subsection \<open>many and many1\<close>



text \<open>
  \<^verbatim>\<open>parse_args\<close>: \<^verbatim>\<open>(a, _), *_ = parsed; return a\<close>. The destructuring of an empty
  list raises ValueError; the \<^verbatim>\<open>try\<close> around it is commented out in the source.
\<close>

definition parse_args :: "parser \<Rightarrow> string list \<Rightarrow> (exn + val) option" where
  "parse_args p args =
     (case parse p args of
        None \<Rightarrow> None
      | Some (Inl e) \<Rightarrow> raises e
      | Some (Inr []) \<Rightarrow> raises ValueError
      | Some (Inr ((a, _) # _)) \<Rightarrow> returns a)"

section \<open>Primitive and surface parsers of parser.py\<close>

text \<open>\<^verbatim>\<open>Item\<close>: \<^verbatim>\<open>c, *cs = cs; return [(c, cs)]\<close>, and \<^verbatim>\<open>[]\<close> on an empty token list.\<close>

definition Item :: parser where
  "Item = (\<lambda>cs. case cs of [] \<Rightarrow> returns [] | c # cs' \<Rightarrow> returns [(StrV c, cs')])"

text \<open>\<^verbatim>\<open>Sat\<close>: \<^verbatim>\<open>c = yield Item(); if predicate(c): yield self.ret(c) else: yield self.zero()\<close>.\<close>

definition Sat :: "(val \<Rightarrow> bool) \<Rightarrow> parser" where
  "Sat predicate = bind Item (\<lambda>c. if predicate c then bind (ret c) do_end else bind zero_p do_end)"

definition Eq :: "val \<Rightarrow> parser" where
  "Eq s = Sat (\<lambda>s1. s = s1)"

text \<open>
  An f-string prints an argument that was left \<^verbatim>\<open>None\<close> as the text \<^verbatim>\<open>None\<close>, and
  \<^verbatim>\<open>dest or long\<close> takes \<^verbatim>\<open>long\<close> when \<^verbatim>\<open>dest\<close> is \<^verbatim>\<open>None\<close> or the empty string.
\<close>

definition fstr :: "string option \<Rightarrow> string" where
  "fstr s = (case s of None \<Rightarrow> ''None'' | Some t \<Rightarrow> t)"

definition dest_or :: "string option \<Rightarrow> string \<Rightarrow> string" where
  "dest_or dest long = (case dest of None \<Rightarrow> long | Some d \<Rightarrow> if d = [] then long else d)"

text \<open>The predicate of \<^verbatim>\<open>Flag\<close> and \<^verbatim>\<open>Option\<close>: \<^verbatim>\<open>x in [f"-{short}", f"--{long}"]\<close>.\<close>

definition predicate :: "string \<Rightarrow> string option \<Rightarrow> val \<Rightarrow> bool" where
  "predicate long short x = (x \<in> set [StrV (''-'' @ fstr short), StrV (''--'' @ long)])"

text \<open>\<^verbatim>\<open>Flag\<close>: \<^verbatim>\<open>yield Sat(predicate); yield self.ret(((dest or long), value))\<close>.\<close>

definition Flag :: "string \<Rightarrow> string option \<Rightarrow> string option \<Rightarrow> bool \<Rightarrow> parser" where
  "Flag long short dest v =
     bind (Sat (predicate long short))
          (\<lambda>_. bind (ret (TupleV [StrV (dest_or dest long), BoolV v])) do_end)"

text \<open>
  \<^verbatim>\<open>Option\<close>: \<^verbatim>\<open>yield Sat(predicate); c2 = yield Item(); key = dest or long\<close>, then inside
  \<^verbatim>\<open>try\<close> the conversion and \<^verbatim>\<open>yield self.ret((key, value))\<close>, and under
  \<^verbatim>\<open>except Exception\<close> \<^verbatim>\<open>yield self.zero()\<close>; an exception that is no
  \<^verbatim>\<open>Exception\<close> is not caught. A converter is a function that returns a value or raises.
\<close>

definition Option :: "string \<Rightarrow> string option \<Rightarrow> (val \<Rightarrow> exn + val) option \<Rightarrow> string option \<Rightarrow> parser" where
  "Option long short convert dest =
     bind (Sat (predicate long short))
          (\<lambda>_. bind Item
             (\<lambda>c2. let key = dest_or dest long in
                    (case (case convert of None \<Rightarrow> Inr c2 | Some conv \<Rightarrow> conv c2) of
                       Inr v \<Rightarrow> bind (ret (TupleV [StrV key, v])) do_end
                     | Inl e \<Rightarrow> if isinstance_Exception e then bind zero_p do_end
                               else raise e)))"

text \<open>\<^verbatim>\<open>Argument\<close>: \<^verbatim>\<open>c = yield Item(); yield self.ret((dest, c))\<close>.\<close>

definition Argument :: "string \<Rightarrow> parser" where
  "Argument dest = bind Item (\<lambda>c. bind (ret (TupleV [StrV dest, c])) do_end)"

section \<open>The Result class of parser/result.py\<close>

text \<open>
  \<^verbatim>\<open>Result\<close> is a dataclass with the one field \<^verbatim>\<open>get: B | Exception\<close>;
  \<^verbatim>\<open>isinstance(self.get, Exception)\<close> is the left injection here.
\<close>

datatype ('e, 'b) Result = Result (get: "'e + 'b")

text \<open>
  \<^verbatim>\<open>Result.__add__\<close>: \<^verbatim>\<open>self\<close> when it holds no exception, else \<^verbatim>\<open>other\<close> when that
  holds no exception, else \<^verbatim>\<open>self\<close>.
\<close>

definition Result_add :: "('e, 'b) Result \<Rightarrow> ('e, 'b) Result \<Rightarrow> ('e, 'b) Result" where
  "Result_add self other =
     (if \<not> isl (get self) then self
      else if \<not> isl (get other) then other
      else self)"

definition Result_bind :: "('e, 'b) Result \<Rightarrow> ('b \<Rightarrow> ('e, 'c) Result) \<Rightarrow> ('e, 'c) Result" where
  "Result_bind self f = (case get self of Inl y \<Rightarrow> Result (Inl y) | Inr y \<Rightarrow> f y)"

definition Result_return :: "'b \<Rightarrow> ('e, 'b) Result" where
  "Result_return a = Result (Inr a)"

text \<open>
  Modelled from the spec: the exception classes of \<^verbatim>\<open>monad_argparse.parser.error\<close> are
  not among the sources. \<^verbatim>\<open>Result.zero\<close> builds \<^verbatim>\<open>ArgumentError(description="zero")\<close>,
  the doctests of \<^verbatim>\<open>nonpositional\<close> print \<^verbatim>\<open>MissingError(missing=...)\<close> and
  \<^verbatim>\<open>UnequalError(left=..., right=...)\<close>; the spec calls the last two the generic
  missing error and the literal-token mismatch (what was got, what was expected).
\<close>

datatype error = ArgumentError string | MissingError string | UnequalError string string

definition Result_zero :: "(error, 'b) Result" where
  "Result_zero = Result (Inl (ArgumentError ''zero''))"

section \<open>nonpositional (parser/nonpositional.py)\<close>

text \<open>
  \<^verbatim>\<open>nonpositional\<close> is written against the Parser class of
  \<^verbatim>\<open>monad_argparse.parser.parser\<close>, whose values are sequences of key-value bindings and
  whose runs are \<^verbatim>\<open>Result\<close>s. That class, \<^verbatim>\<open>Flag\<close> of \<^verbatim>\<open>monad_argparse.parser.flag\<close>
  and \<^verbatim>\<open>Done\<close> are not among the sources; the operations \<^verbatim>\<open>nonpositional\<close> uses are
  modelled from the spec, on the \<^verbatim>\<open>Result\<close> of result.py.
\<close>

type_synonym bindings = "(string \<times> val) list"

type_synonym seq_parser = "string list \<Rightarrow> (error, bindings \<times> string list) Result"

text \<open>
  Modelled from the spec: \<^verbatim>\<open>Parser.ret\<close> is missing. Spec 4.1: \<open>ret(value)\<close> always
  succeeds, returns \<open>value\<close>, consumes nothing.
\<close>

definition ret_seq :: "bindings \<Rightarrow> seq_parser" where
  "ret_seq x = (\<lambda>cs. Result_return (x, cs))"

text \<open>
  Modelled from the spec: \<^verbatim>\<open>Parser.empty\<close> is missing. Spec 4.4: the base case of
  \<open>nonpositional\<close> is \<open>ret(empty)\<close>.
\<close>

definition empty_seq :: seq_parser where
  "empty_seq = ret_seq []"

text \<open>
  Modelled from the spec: \<^verbatim>\<open>Parser.bind\<close> is missing. Spec 4.1: run the parser; on
  success apply \<open>f\<close> to the bound value and run the new parser on the remainder; on
  failure propagate the failure unchanged.
\<close>

definition bind_seq :: "seq_parser \<Rightarrow> (bindings \<Rightarrow> seq_parser) \<Rightarrow> seq_parser" where
  "bind_seq p f = (\<lambda>cs. Result_bind (p cs) (\<lambda>(x, rest). f x rest))"

text \<open>
  Modelled from the spec: \<^verbatim>\<open>Parser.__rshift__\<close> is missing. Spec 4.1: \<open>sequence(p, q)\<close>
  is \<open>bind(p, x => bind(q, y => ret(concat(x, y))))\<close>.
\<close>

definition rshift_seq :: "seq_parser \<Rightarrow> seq_parser \<Rightarrow> seq_parser" where
  "rshift_seq p q = bind_seq p (\<lambda>x. bind_seq q (\<lambda>y. ret_seq (x @ y)))"

text \<open>
  Modelled from the spec: \<^verbatim>\<open>Parser.__or__\<close> is missing. Spec 4.1: run both parsers on
  the same starting stream and merge the two outcomes by the merge of results, which is
  \<^verbatim>\<open>Result.__add__\<close> of result.py.
\<close>

definition or_seq :: "seq_parser \<Rightarrow> seq_parser \<Rightarrow> seq_parser" where
  "or_seq p q = (\<lambda>cs. Result_add (p cs) (q cs))"

text \<open>
  Modelled from the spec: \<^verbatim>\<open>Flag\<close> of \<^verbatim>\<open>monad_argparse.parser.flag\<close> is missing. Spec
  4.3: a Flag succeeds only when the next token equals the expected spelling (\<open>-x\<close> for
  a name of one character, \<open>--name\<close> otherwise) and binds true; spec 7: the stream
  exhausted is the missing error, another token the mismatch of what was got and what
  was expected.
\<close>

definition spelling :: "string \<Rightarrow> string" where
  "spelling name = (if length name = 1 then ''-'' @ name else ''--'' @ name)"

definition Flag_seq :: "string \<Rightarrow> seq_parser" where
  "Flag_seq name = (\<lambda>cs. case cs of
       [] \<Rightarrow> Result (Inl (MissingError (spelling name)))
     | c # cs' \<Rightarrow> if c = spelling name then Result_return ([(name, BoolV True)], cs')
                  else Result (Inl (UnequalError c (spelling name))))"

text \<open>
  Modelled from the spec: \<^verbatim>\<open>Done\<close> is missing. Spec 4.4 calls it the end-of-phase
  marker that follows each alternative of \<open>nonpositional\<close>: it succeeds with no binding
  when no token is left, and fails on a leftover token. \<open>nonpositional\<close> below takes its
  marker as a parameter, and the result about it assumes of the marker only that it
  succeeds with no binding on the empty token list.
\<close>

definition Done :: seq_parser where
  "Done = (\<lambda>cs. case cs of
       [] \<Rightarrow> Result_return ([], [])
     | c # _ \<Rightarrow> Result (Inl (ArgumentError c)))"

text \<open>
  \<^verbatim>\<open>functools.reduce\<close> without an initial value, on a sequence that is not empty
  (\<^verbatim>\<open>nonpositional\<close> returns before it when there is no parser).
\<close>

fun reduce :: "('a \<Rightarrow> 'a \<Rightarrow> 'a) \<Rightarrow> 'a list \<Rightarrow> 'a" where
  "reduce f (x # xs) = foldl f x xs"

text \<open>\<^verbatim>\<open>tail = [p for j, p in enumerate(parsers) if j != i]\<close>.\<close>

definition tail_without :: "nat \<Rightarrow> 'a list \<Rightarrow> 'a list" where
  "tail_without i parsers = map snd (filter (\<lambda>(j, p). j \<noteq> i) (enumerate 0 parsers))"

lemma length_filter_enumerate:
  "n \<le> i \<Longrightarrow> i < n + length ps \<Longrightarrow>
   length (filter (\<lambda>(j, p). j \<noteq> i) (enumerate n ps)) < length ps"
proof (induction ps arbitrary: n)
  case Nil
  then show ?case by simp
next
  case (Cons p ps)
  show ?case
  proof (cases "n = i")
    case True
    have "length (filter (\<lambda>(j, p). j \<noteq> i) (enumerate (Suc n) ps)) \<le> length (enumerate (Suc n) ps)"
      by (rule length_filter_le)
    with True show ?thesis by simp
  next
    case False
    with Cons.prems have "Suc n \<le> i" "i < Suc n + length ps" by simp_all
    from Cons.IH [OF this] False show ?thesis by simp
  qed
qed

lemma length_tail_without: "i < length ps \<Longrightarrow> length (tail_without i ps) < length ps"
  using length_filter_enumerate [of 0 i ps] by (simp add: tail_without_def)

text \<open>
  \<^verbatim>\<open>nonpositional\<close>: with no parser, \<^verbatim>\<open>Parser.empty()\<close>; otherwise, for every index
  \<open>i\<close> and parser \<open>head\<close> of \<^verbatim>\<open>enumerate(parsers)\<close>, the alternative
  \<^verbatim>\<open>head >> nonpositional(*tail) >> Done()\<close>, and the alternatives reduced with
  \<^verbatim>\<open>p1 | p2\<close>. The recursion is on a list that is one parser shorter.
\<close>

function nonpositional :: "seq_parser \<Rightarrow> seq_parser list \<Rightarrow> seq_parser" where
  "nonpositional done_p parsers =
     (if parsers = [] then empty_seq
      else reduce or_seq
             (map (\<lambda>(i, head). rshift_seq (rshift_seq head (nonpositional done_p (tail_without i parsers))) done_p)
                  (enumerate 0 parsers)))"
  by pat_completeness auto
termination
  by (relation "measure (\<lambda>(done_p, ps). length ps)")
     (auto simp: in_set_enumerate_eq intro!: length_tail_without)

declare nonpositional.simps [simp del]

section \<open>Evaluation rules\<close>

lemma and_then_simps [simp]:
  "and_then None k = None"
  "and_then (raises e) k = raises e"
  "and_then (returns xs) k = k xs"
  by (simp_all add: and_then_def raises_def returns_def)

lemma returns_neq [simp]:
  "returns xs \<noteq> None" "returns xs \<noteq> raises e" "raises e \<noteq> returns xs" "raises e \<noteq> None"
  "None \<noteq> returns xs" "None \<noteq> raises e"
  by (simp_all add: raises_def returns_def)

lemma returns_inj [simp]: "returns xs = returns ys \<longleftrightarrow> xs = ys"
  by (simp add: returns_def)

lemma raises_inj [simp]: "raises e = raises e' \<longleftrightarrow> e = e'"
  by (simp add: raises_def)

lemma run_cases:
  obtains (diverges) "r = None" | (raised) e where "r = raises e" | (returned) xs where "r = returns xs"
proof (cases r)
  case None
  then show ?thesis by (rule diverges)
next
  case (Some s)
  then show ?thesis
    by (cases s) (auto simp: raises_def returns_def intro: raised returned)
qed

lemma parse_simp [simp]: "parse p cs = p cs"
  by (simp add: parse_def)

lemma ret_apply [simp]: "ret x cs = returns [(x, cs)]"
  by (simp add: ret_def)

lemma zero_p_apply [simp]: "zero_p cs = returns []"
  by (simp add: zero_p_def)

lemma raise_apply [simp]: "raise e cs = raises e"
  by (simp add: raise_def)

lemma bind_apply: "bind p f cs = and_then (p cs) (bind_each f)"
  by (simp add: bind_def)

lemma add_p_apply: "add_p p q cs = and_then (p cs) (\<lambda>xs. and_then (q cs) (\<lambda>ys. returns (xs @ ys)))"
  by (simp add: add_p_def)

lemma or_p_apply:
  "or_p p q cs = and_then (add_p p q cs) (\<lambda>x. returns (case x of [] \<Rightarrow> [] | x0 # _ \<Rightarrow> [x0]))"
  by (simp add: or_p_def)

lemma do_end_apply: "do_end y cs = (if y = NoneV then raises RuntimeError else returns [(y, cs)])"
  by (simp add: do_end_def)

lemma Item_apply:
  "Item [] = returns []" "Item (c # cs) = returns [(StrV c, cs)]"
  by (simp_all add: Item_def)

lemma Sat_apply:
  "Sat P [] = returns []"
  "Sat P (c # cs) = (if P (StrV c) then returns [(StrV c, cs)] else returns [])"
  by (simp_all add: Sat_def bind_apply Item_apply do_end_apply)

lemma predicate_StrV:
  "predicate long short (StrV c) \<longleftrightarrow> c = ''-'' @ fstr short \<or> c = ''--'' @ long"
  by (simp add: predicate_def)

lemma Flag_apply:
  "Flag long short dest v [] = returns []"
  "Flag long short dest v (c # cs) =
     (if c = ''-'' @ fstr short \<or> c = ''--'' @ long
      then returns [(TupleV [StrV (dest_or dest long), BoolV v], cs)] else returns [])"
  by (simp_all add: Flag_def bind_apply Sat_apply predicate_StrV do_end_apply del: append.simps)

lemma Argument_apply:
  "Argument dest [] = returns []"
  "Argument dest (c # cs) = returns [(TupleV [StrV dest, StrV c], cs)]"
  by (simp_all add: Argument_def bind_apply Item_apply do_end_apply)

lemma Option_apply:
  "Option long short convert dest [] = returns []"
  "Option long short convert dest [c] = returns []"
  "Option long short convert dest (c # c2 # cs) =
     (if c = ''-'' @ fstr short \<or> c = ''--'' @ long
      then (case (case convert of None \<Rightarrow> Inr (StrV c2) | Some conv \<Rightarrow> conv (StrV c2)) of
              Inr v \<Rightarrow> returns [(TupleV [StrV (dest_or dest long), v], cs)]
            | Inl e \<Rightarrow> if isinstance_Exception e then returns [] else raises e)
      else returns [])"
  by (simp_all add: Option_def bind_apply Sat_apply Item_apply predicate_StrV do_end_apply
       split: sum.splits option.splits del: append.simps)

lemma parse_args_simps:
  "p cs = returns [] \<Longrightarrow> parse_args p cs = raises ValueError"
  "p cs = returns ((a, r) # more) \<Longrightarrow> parse_args p cs = returns a"
  "p cs = raises e \<Longrightarrow> parse_args p cs = raises e"
  by (simp_all add: parse_args_def returns_def raises_def)


section \<open>Alternation\<close>

text \<open>
  C4. For all parsers \<open>p\<close> and \<open>q\<close> and every token list, whenever \<open>(p | q).parse(cs)\<close>
  returns, it returns at most one outcome: no second candidate survives an alternation.
\<close>

theorem or_p_at_most_one:
  "parse (or_p p q) cs = returns xs \<Longrightarrow> length xs \<le> 1"
proof -
  assume h: "parse (or_p p q) cs = returns xs"
  show ?thesis
  proof (cases "parse (add_p p q) cs" rule: run_cases)
    case diverges
    with h show ?thesis by (simp add: or_p_def)
  next
    case (raised e)
    with h show ?thesis by (simp add: or_p_def)
  next
    case (returned ys)
    with h show ?thesis by (cases ys) (auto simp: or_p_def)
  qed
qed

theorem or_p_at_most_one_witness:
  "parse (or_p (Argument ''x'') (Argument ''y'')) [''t''] = returns [(TupleV [StrV ''x'', StrV ''t''], [])]
   \<and> length [(TupleV [StrV ''x'', StrV ''t''], [] :: string list)] \<le> 1"
proof -
  have r: "parse (or_p (Argument ''x'') (Argument ''y'')) [''t'']
             = returns [(TupleV [StrV ''x'', StrV ''t''], [])]"
    by (simp add: or_p_apply add_p_apply Argument_apply)
  from or_p_at_most_one [OF r] r show ?thesis by simp
qed

text \<open>
  C3. When both sides of \<open>p | q\<close> succeed on the same token list (each returns at least
  one outcome), the alternation returns the first outcome of the left parser alone; in
  particular \<open>ret(1) | ret(2)\<close> yields 1 on every token list, also through
  \<^verbatim>\<open>parse_args\<close>. \<^verbatim>\<open>Result.__add__\<close> of two successes is the left one as well.
\<close>

theorem or_p_left_wins:
  "(parse p cs = returns (x # xs) \<and> parse q cs = returns (y # ys)
      \<longrightarrow> parse (or_p p q) cs = returns [x])
   \<and> parse (or_p (ret (IntV 1)) (ret (IntV 2))) cs = returns [(IntV 1, cs)]
   \<and> parse_args (or_p (ret (IntV 1)) (ret (IntV 2))) cs = returns (IntV 1)
   \<and> Result_add (Result (Inr a)) (Result (Inr b)) = (Result (Inr a) :: (error, val) Result)"
proof (intro conjI impI)
  assume "parse p cs = returns (x # xs) \<and> parse q cs = returns (y # ys)"
  then show "parse (or_p p q) cs = returns [x]"
    by (simp add: or_p_apply add_p_apply)
next
  show r: "parse (or_p (ret (IntV 1)) (ret (IntV 2))) cs = returns [(IntV 1, cs)]"
    by (simp add: or_p_apply add_p_apply)
  then show "parse_args (or_p (ret (IntV 1)) (ret (IntV 2))) cs = returns (IntV 1)"
    by (simp add: parse_args_simps)
  show "Result_add (Result (Inr a)) (Result (Inr b)) = (Result (Inr a) :: (error, val) Result)"
    by (simp add: Result_add_def)
qed

theorem or_p_left_wins_witness:
  "parse (Flag ''verbose'' None None True) [''--verbose''] = returns [(TupleV [StrV ''verbose'', BoolV True], [])]
   \<and> parse (Argument ''x'') [''--verbose''] = returns [(TupleV [StrV ''x'', StrV ''--verbose''], [])]
   \<and> parse (or_p (Flag ''verbose'' None None True) (Argument ''x'')) [''--verbose'']
        = returns [(TupleV [StrV ''verbose'', BoolV True], [])]"
proof -
  have p: "parse (Flag ''verbose'' None None True) [''--verbose'']
             = returns [(TupleV [StrV ''verbose'', BoolV True], [])]"
    by (simp add: Flag_apply fstr_def dest_or_def)
  have q: "parse (Argument ''x'') [''--verbose''] = returns [(TupleV [StrV ''x'', StrV ''--verbose''], [])]"
    by (simp add: Argument_apply)
  from or_p_left_wins [where p = "Flag ''verbose'' None None True" and cs = "[''--verbose'']"
      and x = "(TupleV [StrV ''verbose'', BoolV True], [])" and xs = "[]"
      and q = "Argument ''x''" and y = "(TupleV [StrV ''x'', StrV ''--verbose''], [])" and ys = "[]"]
    p q show ?thesis by simp
qed

text \<open>
  C6. As stated (\<open>p | zero()\<close> and \<open>zero() | p\<close> parse every input to the same outcomes
  as \<open>p\<close>, for every \<open>p\<close>) the identity fails for a parser with more than one outcome:
  \<open>ret(1) + ret(2)\<close> has two outcomes and its alternation with \<open>zero()\<close> keeps one.
\<close>

theorem or_p_zero_p_counterexample:
  "parse (or_p (add_p (ret (IntV 1)) (ret (IntV 2))) zero_p) []
     \<noteq> parse (add_p (ret (IntV 1)) (ret (IntV 2))) []
   \<and> parse (or_p zero_p (add_p (ret (IntV 1)) (ret (IntV 2)))) []
     \<noteq> parse (add_p (ret (IntV 1)) (ret (IntV 2))) []"
  by (simp add: or_p_apply add_p_apply)

text \<open>
  C6, amended. For every parser \<open>p\<close> and token list, \<open>p | zero()\<close> and \<open>zero() | p\<close>
  both run \<open>p\<close> and keep the first of its outcomes only (nothing when it fails, and its
  exception or its divergence as they are); they parse to exactly what \<open>p\<close> parses to
  whenever \<open>p\<close> returns at most one outcome on that token list.
\<close>

theorem or_p_zero_p:
  "parse (or_p p zero_p) cs = and_then (parse p cs) (\<lambda>xs. returns (take 1 xs))
   \<and> parse (or_p zero_p p) cs = and_then (parse p cs) (\<lambda>xs. returns (take 1 xs))
   \<and> ((\<forall>xs. parse p cs = returns xs \<longrightarrow> length xs \<le> 1)
        \<longrightarrow> parse (or_p p zero_p) cs = parse p cs \<and> parse (or_p zero_p p) cs = parse p cs)"
proof -
  have t: "\<And>xs :: outcomes. (case xs of [] \<Rightarrow> [] | x0 # _ \<Rightarrow> [x0]) = take 1 xs"
    by (simp split: list.splits)
  have a: "parse (or_p p zero_p) cs = and_then (parse p cs) (\<lambda>xs. returns (take 1 xs))"
    by (cases "p cs" rule: run_cases) (simp_all add: or_p_apply add_p_apply t)
  have b: "parse (or_p zero_p p) cs = and_then (parse p cs) (\<lambda>xs. returns (take 1 xs))"
    by (cases "p cs" rule: run_cases) (simp_all add: or_p_apply add_p_apply t)
  have c: "and_then (parse p cs) (\<lambda>xs. returns (take 1 xs)) = parse p cs"
    if "\<forall>xs. parse p cs = returns xs \<longrightarrow> length xs \<le> 1"
    using that by (cases "p cs" rule: run_cases) simp_all
  from a b c show ?thesis by simp
qed

theorem or_p_zero_p_witness:
  "parse (or_p (Flag ''debug'' None None True) zero_p) [''--debug'', ''x'']
     = returns [(TupleV [StrV ''debug'', BoolV True], [''x''])]
   \<and> parse (or_p zero_p (Flag ''debug'' None None True)) [''--debug'', ''x'']
     = parse (Flag ''debug'' None None True) [''--debug'', ''x'']"
proof -
  have r: "parse (Flag ''debug'' None None True) [''--debug'', ''x'']
             = returns [(TupleV [StrV ''debug'', BoolV True], [''x''])]"
    by (simp add: Flag_apply fstr_def dest_or_def)
  then have h: "\<forall>xs. parse (Flag ''debug'' None None True) [''--debug'', ''x''] = returns xs
                  \<longrightarrow> length xs \<le> 1"
    by simp
  from or_p_zero_p [of "Flag ''debug'' None None True" "[''--debug'', ''x'']"] h r
  show ?thesis by simp
qed

section \<open>The entry point parse_args\<close>

text \<open>
  C10. Whenever \<open>p.parse(cs)\<close> returns at least one outcome, \<^verbatim>\<open>parse_args\<close> returns the
  value of the first one, whatever its remainder and whatever outcomes follow: the
  unconsumed tokens are dropped without a report.
\<close>

theorem parse_args_first_outcome:
  "parse p cs = returns ((a, rest) # more) \<Longrightarrow> parse_args p cs = returns a"
  by (simp add: parse_args_simps)

theorem parse_args_first_outcome_witness:
  "parse (Argument ''a'') [''first'', ''second''] = returns [(TupleV [StrV ''a'', StrV ''first''], [''second''])]
   \<and> parse_args (Argument ''a'') [''first'', ''second''] = returns (TupleV [StrV ''a'', StrV ''first''])"
proof -
  have r: "parse (Argument ''a'') [''first'', ''second'']
             = returns [(TupleV [StrV ''a'', StrV ''first''], [''second''])]"
    by (simp add: Argument_apply)
  from parse_args_first_outcome [OF r] r show ?thesis by simp
qed

text \<open>
  C1. As stated (on an input on which the parser fails, \<^verbatim>\<open>parse_args\<close> returns a rendered
  failure and never raises) the claim fails: \<open>Flag("verbose")\<close> fails on the unexpected
  token \<open>--oops\<close>, and \<^verbatim>\<open>parse_args\<close> raises ValueError there.
\<close>

theorem parse_args_failure_counterexample:
  "parse (Flag ''verbose'' None None True) [''--oops''] = returns []
   \<and> parse_args (Flag ''verbose'' None None True) [''--oops''] = raises ValueError"
  by (simp add: parse_args_simps Flag_apply fstr_def)

text \<open>
  C1, amended. For every parser and every token list on which the parser fails (it
  returns no outcome), \<^verbatim>\<open>parse_args\<close> raises ValueError, from the destructuring of the
  empty list; it renders no failure.
\<close>

theorem parse_args_failure_raises:
  "parse p args = returns [] \<Longrightarrow> parse_args p args = raises ValueError"
  by (simp add: parse_args_simps)

theorem parse_args_failure_raises_witness:
  "parse (Argument ''a'') [] = returns [] \<and> parse_args (Argument ''a'') [] = raises ValueError"
proof -
  have r: "parse (Argument ''a'') [] = returns []"
    by (simp add: Argument_apply)
  from parse_args_failure_raises [OF r] r show ?thesis by simp
qed

section \<open>Flag and Option\<close>

text \<open>
  C8. As stated (a Flag succeeds exactly on a single dash plus the name for a name of
  one character, on a double dash plus the name otherwise) the claim fails:
  \<open>Flag("v")\<close> fails on \<open>-v\<close> and succeeds on \<open>--v\<close>.
\<close>

theorem Flag_spelling_counterexample:
  "parse (Flag ''v'' None None True) [''-v''] = returns []
   \<and> parse (Flag ''v'' None None True) [''--v''] = returns [(TupleV [StrV ''v'', BoolV True], [])]"
  by (simp add: Flag_apply fstr_def dest_or_def)

text \<open>
  C8, amended. \<open>Flag(long, short, dest, value)\<close> with a short name given succeeds exactly
  when the next token is a double dash plus \<open>long\<close> or a single dash plus \<open>short\<close>,
  whatever the lengths of the names; it then yields the one outcome that binds \<open>value\<close>
  (true unless the caller passes false) to \<open>dest or long\<close>, with the rest of the tokens,
  and it fails on any other token and on the empty list. With no short name it fails on
  the empty list, succeeds in the same way on a double dash plus \<open>long\<close>, and fails on
  every other token except the text \<open>-None\<close>, about which nothing is said here.
\<close>

theorem Flag_succeeds_iff:
  "parse (Flag long (Some s) dest v) cs =
     (case cs of
        [] \<Rightarrow> returns []
      | c # cs' \<Rightarrow> if c = ''-'' @ s \<or> c = ''--'' @ long
                    then returns [(TupleV [StrV (dest_or dest long), BoolV v], cs')]
                    else returns [])
   \<and> parse (Flag long None dest v) [] = returns []
   \<and> parse (Flag long None dest v) ((''--'' @ long) # ts)
        = returns [(TupleV [StrV (dest_or dest long), BoolV v], ts)]
   \<and> (t \<noteq> ''--'' @ long \<and> t \<noteq> ''-None'' \<longrightarrow> parse (Flag long None dest v) (t # ts) = returns [])"
  by (cases cs) (simp_all add: Flag_apply fstr_def del: append.simps)

theorem Flag_succeeds_iff_witness:
  "''verbose'' \<noteq> ''--'' @ ''debug'' \<and> ''verbose'' \<noteq> ''-None''
   \<and> parse (Flag ''debug'' None None True) [''verbose'', ''--debug''] = returns []
   \<and> parse (Flag ''debug'' None None True) [''--debug'', ''verbose'']
        = returns [(TupleV [StrV ''debug'', BoolV True], [''verbose''])]"
  using Flag_succeeds_iff [where long = "''debug''" and dest = None and v = True
      and t = "''verbose''" and ts = "[''--debug'']" and cs = "[]" and s = "''d''"]
    Flag_succeeds_iff [where long = "''debug''" and dest = None and v = True
      and t = "''verbose''" and ts = "[''verbose'']" and cs = "[]" and s = "''d''"]
  by (simp add: dest_or_def)

text \<open>
  C9. As stated (the failure of an Option whose converter raises carries a
  ConversionFailed error with the name, the raw value and the reason) the claim fails:
  the outcome is the empty list, the very outcome of \<open>zero()\<close>, and two Options with
  different names, raw values and reasons fail with the same outcome.
\<close>

theorem Option_conversion_counterexample:
  "parse (Option ''num'' (Some ''n'') (Some (\<lambda>c. Inl (ConverterError ''invalid literal for int()''))) None)
       [''--num'', ''x'']
     = returns []
   \<and> parse (Option ''num'' (Some ''n'') (Some (\<lambda>c. Inl (ConverterError ''invalid literal for int()''))) None)
       [''--num'', ''x'']
     = parse zero_p [''--num'', ''x'']
   \<and> parse (Option ''num'' (Some ''n'') (Some (\<lambda>c. Inl (ConverterError ''invalid literal for int()''))) None)
       [''--num'', ''x'']
     = parse (Option ''size'' None (Some (\<lambda>c. Inl (ConverterError ''could not convert''))) None)
       [''--size'', ''y'']"
  by (simp add: Option_apply fstr_def)

text \<open>
  C9, amended. For every Option with a converter and every token list whose first token
  is a double dash plus the long name, or a single dash plus the short name when one is
  given, and whose second token makes the converter raise: when the exception is an
  instance of \<^verbatim>\<open>Exception\<close>, the Option returns normally with the empty list of outcomes
  (the ordinary failure of this parser, which carries no error value) and the exception
  does not leave \<^verbatim>\<open>parse\<close>; when it is not (SystemExit, KeyboardInterrupt,
  GeneratorExit), \<^verbatim>\<open>except Exception\<close> lets it pass and \<^verbatim>\<open>parse\<close> raises it.
\<close>

theorem Option_conversion_fails:
  "conv (StrV c2) = Inl e \<Longrightarrow> c = ''--'' @ long \<or> short = Some s \<and> c = ''-'' @ s \<Longrightarrow>
   parse (Option long short (Some conv) dest) (c # c2 # cs)
     = (if isinstance_Exception e then returns [] else raises e)"
  by (auto simp: Option_apply fstr_def simp del: append.simps)

theorem Option_conversion_fails_witness:
  "parse (Option ''num'' (Some ''n'') (Some (\<lambda>c. Inl (ConverterError ''invalid literal for int()''))) None)
       [''-n'', ''x'', ''rest''] = returns []
   \<and> parse (Option ''num'' (Some ''n'') (Some (\<lambda>c. Inl KeyboardInterrupt)) None)
       [''--num'', ''x'', ''rest''] = raises KeyboardInterrupt"
proof -
  have h1: "(\<lambda>c. Inl (ConverterError ''invalid literal for int()'') :: exn + val) (StrV ''x'')
       = Inl (ConverterError ''invalid literal for int()'')" by simp
  have h2: "''-n'' = ''--'' @ ''num'' \<or> Some ''n'' = Some ''n'' \<and> ''-n'' = ''-'' @ ''n''"
    by simp
  have k1: "(\<lambda>c. Inl KeyboardInterrupt :: exn + val) (StrV ''x'') = Inl KeyboardInterrupt"
    by simp
  have k2: "''--num'' = ''--'' @ ''num'' \<or> Some ''n'' = Some ''n'' \<and> ''--num'' = ''-'' @ ''n''"
    by simp
  from Option_conversion_fails [OF h1 h2, where dest = None and cs = "[''rest'']"]
    Option_conversion_fails [OF k1 k2, where dest = None and cs = "[''rest'']"]
  show ?thesis by simp
qed

section \<open>Repetition\<close>











lemma Argument_consumes:
  "\<exists>xs. parse (Argument dest) ts = returns xs
       \<and> (\<forall>(a, ts') \<in> set xs. isinstance_tuple a \<and> length ts' < length ts)"
  by (cases ts) (simp_all add: Argument_apply)


section \<open>Nonpositional composition\<close>

lemma tail_without_simps:
  "tail_without 0 [p, q] = [q]" "tail_without (Suc 0) [p, q] = [p]" "tail_without 0 [p] = []"
  by (simp_all add: tail_without_def enumerate_eq_zip upt_rec)

lemma Flag_seq_apply:
  "Flag_seq name [] = Result (Inl (MissingError (spelling name)))"
  "Flag_seq name (c # cs) = (if c = spelling name then Result (Inr ([(name, BoolV True)], cs))
                  else Result (Inl (UnequalError c (spelling name))))"
  by (simp_all add: Flag_seq_def Result_return_def)

lemma rshift_seq_apply:
  "rshift_seq p q cs =
     (case get (p cs) of
        Inl e \<Rightarrow> Result (Inl e)
      | Inr (x, rest) \<Rightarrow>
          (case get (q rest) of
             Inl e \<Rightarrow> Result (Inl e)
           | Inr (y, rest') \<Rightarrow> Result (Inr (x @ y, rest'))))"
  by (simp add: rshift_seq_def bind_seq_def Result_bind_def ret_seq_def Result_return_def
      split: sum.splits prod.splits)

lemma nonpositional_Nil: "nonpositional done_p [] = empty_seq"
  by (simp add: nonpositional.simps)

lemma nonpositional_one:
  "nonpositional done_p [p] = rshift_seq (rshift_seq p empty_seq) done_p"
  by (subst nonpositional.simps) (simp add: tail_without_simps nonpositional_Nil)

lemma nonpositional_two:
  "nonpositional done_p [p, q] =
     or_seq (rshift_seq (rshift_seq p (nonpositional done_p [q])) done_p)
            (rshift_seq (rshift_seq q (nonpositional done_p [p])) done_p)"
  by (subst nonpositional.simps) (simp add: tail_without_simps)

text \<open>
  C7. With an end-of-phase marker that succeeds with no binding on the empty token list,
  \<open>nonpositional(Flag("verbose"), Flag("debug"))\<close> succeeds on \<open>["--debug", "--verbose"]\<close>
  and on \<open>["--verbose", "--debug"]\<close>, consuming both tokens, with the two bindings
  verbose to true and debug to true, listed in the order of the flags in the input.
\<close>

theorem nonpositional_two_flags:
  assumes "done_p [] = Result (Inr ([], []))"
  shows "nonpositional done_p [Flag_seq ''verbose'', Flag_seq ''debug''] [''--debug'', ''--verbose'']
           = Result (Inr ([(''debug'', BoolV True), (''verbose'', BoolV True)], []))
         \<and> nonpositional done_p [Flag_seq ''verbose'', Flag_seq ''debug''] [''--verbose'', ''--debug'']
           = Result (Inr ([(''verbose'', BoolV True), (''debug'', BoolV True)], []))"
  using assms
  by (simp add: nonpositional_two nonpositional_one or_seq_def rshift_seq_apply Flag_seq_apply
        spelling_def empty_seq_def ret_seq_def Result_return_def Result_add_def)

theorem nonpositional_two_flags_witness:
  "Done [] = Result (Inr ([], []))
   \<and> nonpositional Done [Flag_seq ''verbose'', Flag_seq ''debug''] [''--debug'', ''--verbose'']
           = Result (Inr ([(''debug'', BoolV True), (''verbose'', BoolV True)], []))
   \<and> nonpositional Done [Flag_seq ''verbose'', Flag_seq ''debug''] [''--verbose'', ''--debug'']
           = Result (Inr ([(''verbose'', BoolV True), (''debug'', BoolV True)], []))"
proof -
  have d: "Done [] = Result (Inr ([], []))"
    by (simp add: Done_def Result_return_def)
  from nonpositional_two_flags [where done_p = Done, OF d] d show ?thesis by simp
qed

section \<open>Merging two results\<close>

lemma Result_add_assoc:
  "Result_add (Result_add a b) c = Result_add a (Result_add b c)"
  by (simp add: Result_add_def)


end
